theory Spec2Isabelle
  imports Complex_Main
begin

section \<open>The troll behaviour hook (src/hooks/useTrollBehavior.ts)\<close>

text \<open>
  The hook keeps two React state cells: a \<open>TrollState\<close> object and the boolean
  \<open>isComplete\<close>. Every handler is modelled as a function from the pair of cells before
  the event to the pair after it; events are delivered one at a time, each handler seeing
  the cells as the previous event left them.

  JavaScript numbers: the counters \<open>clickCount\<close>, \<open>dialogStage\<close> and \<open>escapeCount\<close>
  only ever hold integers and are modelled as \<open>int\<close>; \<open>rotation\<close>, \<open>scale\<close>, the offset
  and \<open>escapeDirection\<close> are modelled as \<open>real\<close>, so the arithmetic is exact where the
  program rounds to the nearest double. \<open>Math.random()\<close> is an explicit argument \<open>r\<close>.
\<close>

definition TROLL_MESSAGES :: "string list" where
  "TROLL_MESSAGES = [''Are you SURE?'', ''Really?'', ''But what if you're wrong?'']"

definition REQUIRED_CLICKS :: int where
  "REQUIRED_CLICKS = 1"

definition ROTATION_INCREMENT :: real where
  "ROTATION_INCREMENT = 15"

definition SCALE_DECREMENT :: real where
  "SCALE_DECREMENT = 1 / 10"

definition MIN_SCALE :: real where
  "MIN_SCALE = 1 / 2"

definition HOVER_ESCAPE_MIN :: real where
  "HOVER_ESCAPE_MIN = 80"

definition HOVER_ESCAPE_MAX :: real where
  "HOVER_ESCAPE_MAX = 120"

definition MAX_ESCAPES :: int where
  "MAX_ESCAPES = 4"

definition TIRED_ESCAPE_MIN :: real where
  "TIRED_ESCAPE_MIN = 15"

definition TIRED_ESCAPE_MAX :: real where
  "TIRED_ESCAPE_MAX = 25"

text \<open>The object \<open>{ x: number; y: number }\<close>; the fields are named \<open>offset_x\<close> and
  \<open>offset_y\<close> so that \<open>x\<close> and \<open>y\<close> stay free for variables.\<close>

record Offset =
  offset_x :: real
  offset_y :: real

record TrollState =
  clickCount :: int
  rotation :: real
  scale :: real
  dialogStage :: int
  hoverEscapeOffset :: Offset
  escapeDirection :: real
  escapeCount :: int

text \<open>The two state cells of one hook instance.\<close>

record Hook =
  state :: TrollState
  isComplete :: bool

text \<open>The result object of \<open>generateEscapeOffset\<close>.\<close>

record Escape =
  escape_x :: real
  escape_y :: real
  newDirection :: real

definition generateEscapeOffset :: "real \<Rightarrow> real \<Rightarrow> int \<Rightarrow> Escape" where
  "generateEscapeOffset r currentDirection escCount =
     (let isTired = (escCount \<ge> MAX_ESCAPES);
          minDist = (if isTired then TIRED_ESCAPE_MIN else HOVER_ESCAPE_MIN);
          maxDist = (if isTired then TIRED_ESCAPE_MAX else HOVER_ESCAPE_MAX);
          distance = minDist + r * (maxDist - minDist);
          newDir = currentDirection * (- 1)
      in \<lparr>escape_x = newDir * distance, escape_y = 0, newDirection = newDir\<rparr>)"

definition initialState :: TrollState where
  "initialState =
     \<lparr>clickCount = 0, rotation = 0, scale = 1, dialogStage = 0,
      hoverEscapeOffset = \<lparr>offset_x = 0, offset_y = 0\<rparr>,
      escapeDirection = 1, escapeCount = 0\<rparr>"

definition initialHook :: Hook where
  "initialHook = \<lparr>state = initialState, isComplete = False\<rparr>"

definition handleClick :: "Hook \<Rightarrow> Hook" where
  "handleClick h =
     (if isComplete h then h
      else
        (let prev = state h;
             newClickCount = clickCount prev + 1;
             newRotation = rotation prev + ROTATION_INCREMENT;
             newScale = max MIN_SCALE (scale prev - SCALE_DECREMENT)
         in if newClickCount \<ge> REQUIRED_CLICKS \<and> dialogStage prev = 0
            then h\<lparr>state := prev\<lparr>clickCount := newClickCount, rotation := newRotation,
                                  scale := newScale, dialogStage := 1\<rparr>\<rparr>
            else h\<lparr>state := prev\<lparr>clickCount := newClickCount, rotation := newRotation,
                                  scale := newScale\<rparr>\<rparr>))"

definition handleHover :: "real \<Rightarrow> Hook \<Rightarrow> Hook" where
  "handleHover r h =
     (if isComplete h then h
      else
        (let prev = state h;
             escape = generateEscapeOffset r (escapeDirection prev) (escapeCount prev)
         in h\<lparr>state := prev\<lparr>hoverEscapeOffset :=
                                 \<lparr>offset_x = escape_x escape, offset_y = escape_y escape\<rparr>,
                               escapeDirection := newDirection escape,
                               escapeCount := escapeCount prev + 1\<rparr>\<rparr>))"

definition confirmDialog :: "Hook \<Rightarrow> Hook" where
  "confirmDialog h =
     (let prev = state h;
          newDialogStage = dialogStage prev + 1
      in if newDialogStage > int (length TROLL_MESSAGES)
         then h\<lparr>state := prev\<lparr>dialogStage := 0\<rparr>, isComplete := True\<rparr>
         else h\<lparr>state := prev\<lparr>dialogStage := newDialogStage\<rparr>\<rparr>)"

definition cancelDialog :: "Hook \<Rightarrow> Hook" where
  "cancelDialog h = h\<lparr>state := (state h)\<lparr>dialogStage := 0\<rparr>\<rparr>"

definition resetTroll :: "Hook \<Rightarrow> Hook" where
  "resetTroll h = \<lparr>state = initialState, isComplete = False\<rparr>"

definition resetHoverOffset :: "Hook \<Rightarrow> Hook" where
  "resetHoverOffset h =
     h\<lparr>state := (state h)\<lparr>hoverEscapeOffset := \<lparr>offset_x = 0, offset_y = 0\<rparr>,
                           escapeDirection := 1, escapeCount := 0\<rparr>\<rparr>"

definition currentMessage :: "Hook \<Rightarrow> string option" where
  "currentMessage h =
     (if dialogStage (state h) > 0 \<and> dialogStage (state h) \<le> int (length TROLL_MESSAGES)
      then Some (TROLL_MESSAGES ! nat (dialogStage (state h) - 1))
      else None)"

text \<open>The events one hook instance can receive, and a run of them in order.\<close>

datatype HookEvent =
  Click | Hover real | Confirm | Cancel | ResetTroll | ResetHoverOffset

fun hookStep :: "Hook \<Rightarrow> HookEvent \<Rightarrow> Hook" where
  "hookStep h Click = handleClick h"
| "hookStep h (Hover r) = handleHover r h"
| "hookStep h Confirm = confirmDialog h"
| "hookStep h Cancel = cancelDialog h"
| "hookStep h ResetTroll = resetTroll h"
| "hookStep h ResetHoverOffset = resetHoverOffset h"

definition hookRun :: "Hook \<Rightarrow> HookEvent list \<Rightarrow> Hook" where
  "hookRun = foldl hookStep"

section \<open>The displacement registry (components/TrollButtonContext.tsx)\<close>

text \<open>
  \<open>TrollButtonProvider\<close> owns one state cell, \<open>activeButtonId: string | null\<close>; the
  functions \<open>setActiveButton\<close> and \<open>isActiveButton\<close> of the context value write and read
  that cell.
\<close>

record Registry =
  activeButtonId :: "string option"

definition initialRegistry :: Registry where
  "initialRegistry = \<lparr>activeButtonId = None\<rparr>"

definition setActiveButton :: "string option \<Rightarrow> Registry \<Rightarrow> Registry" where
  "setActiveButton ident reg = reg\<lparr>activeButtonId := ident\<rparr>"

definition isActiveButton :: "Registry \<Rightarrow> string \<Rightarrow> bool" where
  "isActiveButton reg ident = (activeButtonId reg = Some ident)"

text \<open>
  \<open>useContext(TrollButtonContext)\<close>: the context is created with the default
  \<open>undefined\<close>, and the only provider of it is \<open>TrollButtonProvider\<close>, which always
  passes its context value. The argument lists the registries of the enclosing
  providers, nearest first; \<open>None\<close> stands for \<open>undefined\<close>.
\<close>

definition useContext_TrollButtonContext :: "Registry list \<Rightarrow> Registry option" where
  "useContext_TrollButtonContext providers =
     (case providers of [] \<Rightarrow> None | reg # _ \<Rightarrow> Some reg)"

datatype JsError = Error string

definition useTrollButtonContext :: "Registry list \<Rightarrow> JsError + Registry" where
  "useTrollButtonContext providers =
     (case useContext_TrollButtonContext providers of
        None \<Rightarrow> Inl (Error ''useTrollButtonContext must be used within a TrollButtonProvider'')
      | Some context \<Rightarrow> Inr context)"

section \<open>The troll button (components/TrollDoneButton.tsx)\<close>

text \<open>
  What one \<open>TrollDoneButton\<close> renders: nothing when the todo is completed, otherwise the
  button with its \<open>translateX\<close> transform (in pixels) and the confirmation dialog.
\<close>

record TrollView =
  translateX :: real
  dialogIsOpen :: bool
  dialogMessage :: string

definition TrollDoneButton :: "Registry \<Rightarrow> bool \<Rightarrow> string \<Rightarrow> Hook \<Rightarrow> TrollView option" where
  "TrollDoneButton context isCompleted todoId h =
     (let isDisplaced = isActiveButton context todoId;
          hoverOffset = hoverEscapeOffset (state h)
      in if isCompleted then None
         else Some \<lparr>translateX = (if isDisplaced then offset_x hoverOffset else 0),
                    dialogIsOpen = (currentMessage h \<noteq> None),
                    dialogMessage = (case currentMessage h of None \<Rightarrow> [] | Some m \<Rightarrow> m)\<rparr>)"

text \<open>
  A rendered todo list: the registry of its provider and one hook instance per todo id.
  \<open>handleButtonHover\<close> of the button \<open>todoId\<close> first makes that button the active one,
  then runs its own \<open>handleHover\<close>.
\<close>

record TodoList =
  registry :: Registry
  hooks :: "string \<Rightarrow> Hook"

definition handleButtonHover :: "string \<Rightarrow> real \<Rightarrow> TodoList \<Rightarrow> TodoList" where
  "handleButtonHover todoId r l =
     l\<lparr>registry := setActiveButton (Some todoId) (registry l),
       hooks := (hooks l)(todoId := handleHover r (hooks l todoId))\<rparr>"

text \<open>A sequence of hover events, each with the id of the hovered button and the random
  number its \<open>handleHover\<close> draws.\<close>

fun hoverRun :: "TodoList \<Rightarrow> (string \<times> real) list \<Rightarrow> TodoList" where
  "hoverRun l [] = l"
| "hoverRun l ((todoId, r) # evs) = hoverRun (handleButtonHover todoId r l) evs"

section \<open>The fixed button (components/DoneButton.tsx)\<close>

text \<open>
  \<open>DoneButton\<close> is a function of its props alone. The element it returns is a native
  button (\<open>Button\<close> of components/ui/button.tsx passes its props through to
  \<open>button\<close>); the record keeps the event handlers and the inline style the element
  receives. A callback \<open>() => void\<close> is a transformer of the state \<open>'w\<close> of its owner.
\<close>

record 'w ButtonElement =
  onClick :: "'w \<Rightarrow> 'w"
  onMouseEnter :: "('w \<Rightarrow> 'w) option"
  style :: "string option"
  ariaLabel :: string
  testId :: string

definition DoneButton :: "('w \<Rightarrow> 'w) \<Rightarrow> bool \<Rightarrow> 'w ButtonElement option" where
  "DoneButton onComplete isCompleted =
     (if isCompleted then None
      else Some \<lparr>onClick = onComplete, onMouseEnter = None, style = None,
                 ariaLabel = ''Mark as complete'', testId = ''done-button''\<rparr>)"

text \<open>
  The browser's side: a click, or Enter or Space while the button has focus, activates a
  native button and runs its click handler once; a pointer entering it runs the
  \<open>onMouseEnter\<close> handler when there is one.
\<close>

datatype UiEvent = MouseClick | KeyEnter | KeySpace | MouseEnter

fun dispatch :: "'w ButtonElement \<Rightarrow> UiEvent \<Rightarrow> 'w \<Rightarrow> 'w" where
  "dispatch el MouseClick w = onClick el w"
| "dispatch el KeyEnter w = onClick el w"
| "dispatch el KeySpace w = onClick el w"
| "dispatch el MouseEnter w = (case onMouseEnter el of None \<Rightarrow> w | Some handler \<Rightarrow> handler w)"

text \<open>A freshly mounted list: nothing is active and every hook is in its initial state.\<close>

definition freshList :: TodoList where
  "freshList = \<lparr>registry = initialRegistry, hooks = (\<lambda>todoId. initialHook)\<rparr>"

section \<open>Basic facts\<close>

lemmas troll_constants = REQUIRED_CLICKS_def ROTATION_INCREMENT_def SCALE_DECREMENT_def
  MIN_SCALE_def HOVER_ESCAPE_MIN_def HOVER_ESCAPE_MAX_def MAX_ESCAPES_def
  TIRED_ESCAPE_MIN_def TIRED_ESCAPE_MAX_def

lemma length_TROLL_MESSAGES: "length TROLL_MESSAGES = 3"
  by (simp add: TROLL_MESSAGES_def)

lemma hookRun_Nil: "hookRun h [] = h"
  by (simp add: hookRun_def)

lemma hookRun_Cons: "hookRun h (e # evs) = hookRun (hookStep h e) evs"
  by (simp add: hookRun_def)


text \<open>Three states used as concrete inputs below: the dialog just opened, the button
  tired after four escapes, and the sequence completed.\<close>

lemma open_hook:
  "hookRun initialHook [Click] =
     \<lparr>state = \<lparr>clickCount = 1, rotation = 15, scale = 9 / 10, dialogStage = 1,
               hoverEscapeOffset = \<lparr>offset_x = 0, offset_y = 0\<rparr>,
               escapeDirection = 1, escapeCount = 0\<rparr>,
      isComplete = False\<rparr>"
  by (simp add: hookRun_def handleClick_def initialHook_def initialState_def
      troll_constants Let_def)

lemma tired_hook:
  "hookRun initialHook [Hover 0, Hover 0, Hover 0, Hover 0] =
     \<lparr>state = \<lparr>clickCount = 0, rotation = 0, scale = 1, dialogStage = 0,
               hoverEscapeOffset = \<lparr>offset_x = 80, offset_y = 0\<rparr>,
               escapeDirection = 1, escapeCount = 4\<rparr>,
      isComplete = False\<rparr>"
  by (simp add: hookRun_def handleHover_def generateEscapeOffset_def initialHook_def
      initialState_def troll_constants Let_def)

lemma complete_hook:
  "hookRun initialHook [Click, Confirm, Confirm, Confirm] =
     \<lparr>state = \<lparr>clickCount = 1, rotation = 15, scale = 9 / 10, dialogStage = 0,
               hoverEscapeOffset = \<lparr>offset_x = 0, offset_y = 0\<rparr>,
               escapeDirection = 1, escapeCount = 0\<rparr>,
      isComplete = True\<rparr>"
  by (simp add: hookRun_def handleClick_def confirmDialog_def initialHook_def
      initialState_def TROLL_MESSAGES_def troll_constants Let_def)

lemma fresh_hook: "\<not> isComplete initialHook \<and> escapeCount (state initialHook) < MAX_ESCAPES"
  by (simp add: initialHook_def initialState_def MAX_ESCAPES_def)

section \<open>Completion\<close>

text \<open>
  C1, as stated, fails: \<open>confirmDialog\<close> carries no \<open>isComplete\<close> guard. In the state
  reached by one click and three confirmations \<open>isComplete\<close> is true and \<open>dialogStage\<close>
  is 0, and one more \<open>confirmDialog\<close> moves \<open>dialogStage\<close> to 1.
\<close>

theorem complete_not_terminal_for_confirm:
  "isComplete (hookRun initialHook [Click, Confirm, Confirm, Confirm])
   \<and> dialogStage (state (hookRun initialHook [Click, Confirm, Confirm, Confirm])) = 0
   \<and> dialogStage (state (confirmDialog (hookRun initialHook [Click, Confirm, Confirm, Confirm]))) = 1
   \<and> confirmDialog (hookRun initialHook [Click, Confirm, Confirm, Confirm])
       \<noteq> hookRun initialHook [Click, Confirm, Confirm, Confirm]"
  by (simp add: complete_hook confirmDialog_def TROLL_MESSAGES_def Let_def)

text \<open>
  C1, amended. In every state with \<open>isComplete = true\<close>, \<open>handleClick\<close> and
  \<open>handleHover\<close> leave the whole state unchanged; \<open>cancelDialog\<close> only writes 0 to
  \<open>dialogStage\<close>, so it leaves unchanged every such state whose \<open>dialogStage\<close> is 0, where
  also no dialog message is shown; \<open>confirmDialog\<close> keeps \<open>isComplete\<close> and every field
  other than \<open>dialogStage\<close>, which it advances as in any other state.
\<close>

theorem complete_guards:
  "isComplete h \<Longrightarrow>
     handleClick h = h
     \<and> handleHover r h = h
     \<and> (dialogStage (state h) = 0 \<longrightarrow> cancelDialog h = h \<and> currentMessage h = None)
     \<and> cancelDialog h = h\<lparr>state := (state h)\<lparr>dialogStage := 0\<rparr>\<rparr>
     \<and> confirmDialog h =
         h\<lparr>state := (state h)\<lparr>dialogStage :=
             (if dialogStage (state h) + 1 > int (length TROLL_MESSAGES) then 0
              else dialogStage (state h) + 1)\<rparr>\<rparr>
     \<and> isComplete (confirmDialog h)"
  by (simp add: handleClick_def handleHover_def cancelDialog_def confirmDialog_def
      currentMessage_def Let_def)

theorem complete_guards_witness:
  "isComplete (hookRun initialHook [Click, Confirm, Confirm, Confirm])
   \<and> dialogStage (state (hookRun initialHook [Click, Confirm, Confirm, Confirm])) = 0
   \<and> handleClick (hookRun initialHook [Click, Confirm, Confirm, Confirm])
       = hookRun initialHook [Click, Confirm, Confirm, Confirm]
   \<and> handleHover (1 / 2) (hookRun initialHook [Click, Confirm, Confirm, Confirm])
       = hookRun initialHook [Click, Confirm, Confirm, Confirm]
   \<and> cancelDialog (hookRun initialHook [Click, Confirm, Confirm, Confirm])
       = hookRun initialHook [Click, Confirm, Confirm, Confirm]
   \<and> currentMessage (hookRun initialHook [Click, Confirm, Confirm, Confirm]) = None
   \<and> isComplete (confirmDialog (hookRun initialHook [Click, Confirm, Confirm, Confirm]))"
proof -
  let ?fin = "hookRun initialHook [Click, Confirm, Confirm, Confirm]"
  have c: "isComplete ?fin" and d: "dialogStage (state ?fin) = 0"
    by (simp_all add: complete_hook)
  show ?thesis using complete_guards [OF c, of "1 / 2"] c d by blast
qed

section \<open>Opening and advancing the dialog\<close>

text \<open>
  C2, as stated, fails: the test in \<open>handleClick\<close> is \<open>newClickCount >= REQUIRED_CLICKS\<close>,
  not equality. After a click and a cancel, \<open>clickCount\<close> already meets the threshold and
  \<open>dialogStage\<close> is 0; the next click sets \<open>dialogStage\<close> to 1 again.
\<close>

theorem click_after_cancel_reopens:
  "REQUIRED_CLICKS \<le> clickCount (state (hookRun initialHook [Click, Cancel]))
   \<and> dialogStage (state (hookRun initialHook [Click, Cancel])) = 0
   \<and> dialogStage (state (handleClick (hookRun initialHook [Click, Cancel]))) = 1"
  by (simp add: hookRun_def handleClick_def cancelDialog_def initialHook_def initialState_def
      troll_constants Let_def)

lemma handleClick_dialogStage:
  "dialogStage (state (handleClick h)) =
     (if \<not> isComplete h \<and> dialogStage (state h) = 0 \<and> REQUIRED_CLICKS \<le> clickCount (state h) + 1
      then 1 else dialogStage (state h))"
  by (simp add: handleClick_def Let_def)

text \<open>
  C2, amended. \<open>handleClick\<close> sets \<open>dialogStage\<close> to 1 on every click taken while
  \<open>isComplete\<close> is false, \<open>dialogStage\<close> is 0 and the incremented \<open>clickCount\<close> is at least
  \<open>REQUIRED_CLICKS\<close>, and leaves \<open>dialogStage\<close> unchanged in every other case. Apart from
  such a click at stage 0, only \<open>confirmDialog\<close> changes \<open>dialogStage\<close> to a nonzero value.
\<close>

theorem dialogStage_advance:
  "dialogStage (state (handleClick h)) =
     (if \<not> isComplete h \<and> dialogStage (state h) = 0 \<and> REQUIRED_CLICKS \<le> clickCount (state h) + 1
      then 1 else dialogStage (state h))
   \<and> (dialogStage (state (hookStep h e)) \<noteq> dialogStage (state h)
        \<and> dialogStage (state (hookStep h e)) \<noteq> 0 \<longrightarrow>
        e = Confirm \<or> (e = Click \<and> dialogStage (state h) = 0))"
proof -
  have adv: "e = Confirm \<or> (e = Click \<and> dialogStage (state h) = 0)"
    if ne: "dialogStage (state (hookStep h e)) \<noteq> dialogStage (state h)"
      and nz: "dialogStage (state (hookStep h e)) \<noteq> 0"
  proof (cases e)
    case Click
    then show ?thesis using ne by (simp add: handleClick_dialogStage split: if_splits)
  next
    case (Hover r)
    then show ?thesis using ne by (simp add: handleHover_def Let_def split: if_splits)
  next
    case Confirm
    then show ?thesis by simp
  next
    case Cancel
    then show ?thesis using nz by (simp add: cancelDialog_def)
  next
    case ResetTroll
    then show ?thesis using nz by (simp add: resetTroll_def initialState_def)
  next
    case ResetHoverOffset
    then show ?thesis using ne by (simp add: resetHoverOffset_def)
  qed
  show ?thesis using handleClick_dialogStage [of h] adv by blast
qed

theorem dialogStage_advance_witness:
  "dialogStage (state (hookStep (hookRun initialHook [Click, Cancel]) Click))
     \<noteq> dialogStage (state (hookRun initialHook [Click, Cancel]))
   \<and> dialogStage (state (hookStep (hookRun initialHook [Click, Cancel]) Click)) \<noteq> 0
   \<and> (Click = Confirm \<or> (Click = Click \<and> dialogStage (state (hookRun initialHook [Click, Cancel])) = 0))"
proof -
  let ?h = "hookRun initialHook [Click, Cancel]"
  have h: "?h = \<lparr>state = \<lparr>clickCount = 1, rotation = 15, scale = 9 / 10, dialogStage = 0,
               hoverEscapeOffset = \<lparr>offset_x = 0, offset_y = 0\<rparr>,
               escapeDirection = 1, escapeCount = 0\<rparr>, isComplete = False\<rparr>"
    by (simp add: hookRun_def handleClick_def cancelDialog_def initialHook_def
        initialState_def troll_constants Let_def)
  have a: "dialogStage (state (hookStep ?h Click)) = 1"
    by (simp add: h handleClick_def REQUIRED_CLICKS_def Let_def)
  have b: "dialogStage (state ?h) = 0" by (simp add: h)
  have ne: "dialogStage (state (hookStep ?h Click)) \<noteq> dialogStage (state ?h)"
    and nz: "dialogStage (state (hookStep ?h Click)) \<noteq> 0"
    using a b by simp_all
  show ?thesis using dialogStage_advance [of ?h Click] ne nz by blast
qed

section \<open>Confirming\<close>

lemma confirmDialog_fields:
  "dialogStage (state (confirmDialog h)) =
      (if int (length TROLL_MESSAGES) < dialogStage (state h) + 1 then 0
       else dialogStage (state h) + 1)"
  "isComplete (confirmDialog h) =
      (isComplete h \<or> int (length TROLL_MESSAGES) < dialogStage (state h) + 1)"
  "clickCount (state (confirmDialog h)) = clickCount (state h)"
  "rotation (state (confirmDialog h)) = rotation (state h)"
  "scale (state (confirmDialog h)) = scale (state h)"
  "hoverEscapeOffset (state (confirmDialog h)) = hoverEscapeOffset (state h)"
  "escapeDirection (state (confirmDialog h)) = escapeDirection (state h)"
  "escapeCount (state (confirmDialog h)) = escapeCount (state h)"
  by (simp_all add: confirmDialog_def Let_def)

text \<open>
  C3. \<open>confirmDialog\<close> adds one to \<open>dialogStage\<close>; if the new stage exceeds the number
  of messages, which is 3, it sets \<open>isComplete\<close> and resets \<open>dialogStage\<close> to 0; it changes
  no other field, in particular not \<open>clickCount\<close>. From \<open>dialogStage = 1\<close>, as many
  confirmations as there are messages give \<open>isComplete = true\<close> and \<open>dialogStage = 0\<close>, and
  fewer confirmations of a state that is not complete leave it not complete.
\<close>

theorem confirmDialog_sequence:
  "dialogStage (state (confirmDialog h)) =
      (if int (length TROLL_MESSAGES) < dialogStage (state h) + 1 then 0
       else dialogStage (state h) + 1)
   \<and> isComplete (confirmDialog h) =
      (isComplete h \<or> int (length TROLL_MESSAGES) < dialogStage (state h) + 1)
   \<and> clickCount (state (confirmDialog h)) = clickCount (state h)
   \<and> rotation (state (confirmDialog h)) = rotation (state h)
   \<and> scale (state (confirmDialog h)) = scale (state h)
   \<and> hoverEscapeOffset (state (confirmDialog h)) = hoverEscapeOffset (state h)
   \<and> escapeDirection (state (confirmDialog h)) = escapeDirection (state h)
   \<and> escapeCount (state (confirmDialog h)) = escapeCount (state h)
   \<and> length TROLL_MESSAGES = 3
   \<and> (dialogStage (state h) = 1 \<longrightarrow>
        isComplete ((confirmDialog ^^ length TROLL_MESSAGES) h)
        \<and> dialogStage (state ((confirmDialog ^^ length TROLL_MESSAGES) h)) = 0)
   \<and> (dialogStage (state h) = 1 \<and> \<not> isComplete h \<and> k < length TROLL_MESSAGES \<longrightarrow>
        \<not> isComplete ((confirmDialog ^^ k) h))"
proof -
  have three: "isComplete ((confirmDialog ^^ length TROLL_MESSAGES) h)
        \<and> dialogStage (state ((confirmDialog ^^ length TROLL_MESSAGES) h)) = 0"
    if "dialogStage (state h) = 1"
    using that
    by (simp add: length_TROLL_MESSAGES eval_nat_numeral confirmDialog_fields)
  have fewer: "\<not> isComplete ((confirmDialog ^^ k) h)"
    if s1: "dialogStage (state h) = 1" and nc: "\<not> isComplete h"
      and k: "k < length TROLL_MESSAGES"
  proof -
    from k have "k = 0 \<or> k = 1 \<or> k = 2"
      by (auto simp add: length_TROLL_MESSAGES)
    then show ?thesis using s1 nc
      by (auto simp add: eval_nat_numeral confirmDialog_fields length_TROLL_MESSAGES)
  qed
  show ?thesis using three fewer
    by (simp add: confirmDialog_fields length_TROLL_MESSAGES)
qed

theorem confirmDialog_sequence_witness:
  "dialogStage (state (hookRun initialHook [Click])) = 1
   \<and> \<not> isComplete (hookRun initialHook [Click])
   \<and> 2 < length TROLL_MESSAGES
   \<and> \<not> isComplete ((confirmDialog ^^ 2) (hookRun initialHook [Click]))
   \<and> isComplete ((confirmDialog ^^ length TROLL_MESSAGES) (hookRun initialHook [Click]))
   \<and> dialogStage (state ((confirmDialog ^^ length TROLL_MESSAGES) (hookRun initialHook [Click]))) = 0"
proof -
  let ?h = "hookRun initialHook [Click]"
  have s1: "dialogStage (state ?h) = 1" and nc: "\<not> isComplete ?h"
    by (simp_all add: open_hook)
  have k: "2 < length TROLL_MESSAGES" by (simp add: length_TROLL_MESSAGES)
  show ?thesis using confirmDialog_sequence [of ?h 2] s1 nc k by blast
qed

section \<open>Displacement\<close>

lemma handleButtonHover_active:
  "activeButtonId (registry (handleButtonHover todoId r l)) = Some todoId"
  by (simp add: handleButtonHover_def setActiveButton_def)

lemma hoverRun_active:
  "evs \<noteq> [] \<Longrightarrow> activeButtonId (registry (hoverRun l evs)) = Some (fst (last evs))"
proof (induction evs arbitrary: l)
  case Nil
  then show ?case by simp
next
  case (Cons ev evs)
  obtain todoId r where ev: "ev = (todoId, r)" by (cases ev)
  show ?case
  proof (cases "evs = []")
    case True
    then show ?thesis by (simp add: ev handleButtonHover_active)
  next
    case False
    then show ?thesis using Cons.IH [OF False] by (simp add: ev)
  qed
qed

text \<open>
  C4. After a non-empty sequence of hover events on buttons sharing one registry, exactly
  the id hovered last satisfies \<open>isActiveButton\<close>; for two distinct ids, hovering the first
  makes it active and the second not, and then hovering the second flips both. The
  \<open>translateX\<close> a rendered \<open>TrollDoneButton\<close> applies is 0 whenever its id is not the
  active one, whatever offset its own hook stores.
\<close>

theorem displacement_mutual_exclusion:
  "(evs \<noteq> [] \<longrightarrow> isActiveButton (registry (hoverRun l evs)) i = (i = fst (last evs)))
   \<and> (\<not> isActiveButton context i \<longrightarrow>
        map_option translateX (TrollDoneButton context False i h) = Some 0)
   \<and> (a \<noteq> b \<longrightarrow>
        isActiveButton (registry (handleButtonHover a r l)) a
        \<and> \<not> isActiveButton (registry (handleButtonHover a r l)) b
        \<and> isActiveButton (registry (handleButtonHover b r' (handleButtonHover a r l))) b
        \<and> \<not> isActiveButton (registry (handleButtonHover b r' (handleButtonHover a r l))) a)"
proof -
  have last_wins: "isActiveButton (registry (hoverRun l evs)) i = (i = fst (last evs))"
    if "evs \<noteq> []"
    using hoverRun_active [OF that, of l] by (auto simp add: isActiveButton_def)
  have zero: "map_option translateX (TrollDoneButton context False i h) = Some 0"
    if "\<not> isActiveButton context i"
    using that by (simp add: TrollDoneButton_def Let_def)
  have two: "isActiveButton (registry (handleButtonHover a r l)) a
        \<and> \<not> isActiveButton (registry (handleButtonHover a r l)) b
        \<and> isActiveButton (registry (handleButtonHover b r' (handleButtonHover a r l))) b
        \<and> \<not> isActiveButton (registry (handleButtonHover b r' (handleButtonHover a r l))) a"
    if "a \<noteq> b"
    using that by (auto simp add: isActiveButton_def handleButtonHover_active)
  show ?thesis using last_wins zero two by blast
qed

lemma two_hovers:
  "registry (hoverRun freshList [(''A'', 1 / 2), (''B'', 1 / 2)]) = \<lparr>activeButtonId = Some ''B''\<rparr>"
  "offset_x (hoverEscapeOffset (state (hooks (hoverRun freshList [(''A'', 1 / 2), (''B'', 1 / 2)]) ''A''))) = - 100"
  by (simp_all add: freshList_def handleButtonHover_def setActiveButton_def handleHover_def
      generateEscapeOffset_def initialHook_def initialState_def troll_constants Let_def)

theorem displacement_mutual_exclusion_witness:
  "[(''A'', 1 / 2 :: real), (''B'', 1 / 2)] \<noteq> [] \<and> ''A'' \<noteq> ''B''
   \<and> isActiveButton (registry (hoverRun freshList [(''A'', 1 / 2), (''B'', 1 / 2)])) ''B''
   \<and> \<not> isActiveButton (registry (hoverRun freshList [(''A'', 1 / 2), (''B'', 1 / 2)])) ''A''
   \<and> offset_x (hoverEscapeOffset (state
        (hooks (hoverRun freshList [(''A'', 1 / 2), (''B'', 1 / 2)]) ''A''))) \<noteq> 0
   \<and> map_option translateX
        (TrollDoneButton (registry (hoverRun freshList [(''A'', 1 / 2), (''B'', 1 / 2)])) False ''A''
          (hooks (hoverRun freshList [(''A'', 1 / 2), (''B'', 1 / 2)]) ''A'')) = Some 0
   \<and> (isActiveButton (registry (handleButtonHover ''A'' (1 / 2) freshList)) ''A''
      \<and> \<not> isActiveButton (registry (handleButtonHover ''A'' (1 / 2) freshList)) ''B''
      \<and> isActiveButton (registry (handleButtonHover ''B'' (1 / 2)
            (handleButtonHover ''A'' (1 / 2) freshList))) ''B''
      \<and> \<not> isActiveButton (registry (handleButtonHover ''B'' (1 / 2)
            (handleButtonHover ''A'' (1 / 2) freshList))) ''A'')"
proof -
  let ?evs = "[(''A'', 1 / 2 :: real), (''B'', 1 / 2)]"
  let ?l = "hoverRun freshList ?evs"
  have ne: "?evs \<noteq> []" and ab: "''A'' \<noteq> ''B''" by simp_all
  have bB: "isActiveButton (registry ?l) ''B''"
    using displacement_mutual_exclusion [of ?evs freshList "''B''"] by simp
  have nA: "\<not> isActiveButton (registry ?l) ''A''"
    using displacement_mutual_exclusion [of ?evs freshList "''A''"] by simp
  have stored: "offset_x (hoverEscapeOffset (state (hooks ?l ''A''))) \<noteq> 0"
    unfolding two_hovers by simp
  have shown: "map_option translateX (TrollDoneButton (registry ?l) False ''A'' (hooks ?l ''A'')) = Some 0"
    by (rule mp [OF conjunct1 [OF conjunct2 [OF displacement_mutual_exclusion]] nA])
  have siblings: "isActiveButton (registry (handleButtonHover ''A'' (1 / 2) freshList)) ''A''
      \<and> \<not> isActiveButton (registry (handleButtonHover ''A'' (1 / 2) freshList)) ''B''
      \<and> isActiveButton (registry (handleButtonHover ''B'' (1 / 2)
            (handleButtonHover ''A'' (1 / 2) freshList))) ''B''
      \<and> \<not> isActiveButton (registry (handleButtonHover ''B'' (1 / 2)
            (handleButtonHover ''A'' (1 / 2) freshList))) ''A''"
    by (rule mp [OF conjunct2 [OF conjunct2 [OF displacement_mutual_exclusion]] ab])
  show ?thesis
    by (intro conjI ne ab bB nA stored shown siblings)
qed

section \<open>Cancelling\<close>

text \<open>
  C5. \<open>cancelDialog\<close> sets \<open>dialogStage\<close> to 0 and changes nothing else: in every state
  \<open>clickCount\<close>, \<open>rotation\<close>, \<open>scale\<close>, \<open>hoverEscapeOffset\<close>, \<open>escapeDirection\<close>,
  \<open>escapeCount\<close> and \<open>isComplete\<close> are preserved; after three clicks from the initial
  state and a cancel, \<open>clickCount\<close> is 3 and \<open>dialogStage\<close> is 0.
\<close>

theorem cancelDialog_frame:
  "dialogStage (state (cancelDialog h)) = 0
   \<and> clickCount (state (cancelDialog h)) = clickCount (state h)
   \<and> rotation (state (cancelDialog h)) = rotation (state h)
   \<and> scale (state (cancelDialog h)) = scale (state h)
   \<and> hoverEscapeOffset (state (cancelDialog h)) = hoverEscapeOffset (state h)
   \<and> escapeDirection (state (cancelDialog h)) = escapeDirection (state h)
   \<and> escapeCount (state (cancelDialog h)) = escapeCount (state h)
   \<and> isComplete (cancelDialog h) = isComplete h
   \<and> clickCount (state (cancelDialog (handleClick (handleClick (handleClick initialHook))))) = 3
   \<and> dialogStage (state (cancelDialog (handleClick (handleClick (handleClick initialHook))))) = 0"
  by (simp add: cancelDialog_def handleClick_def initialHook_def initialState_def
      REQUIRED_CLICKS_def Let_def)

section \<open>The scale floor\<close>






section \<open>Escaping on hover\<close>

lemma direction_step:
  assumes "escapeDirection (state h) = 1 \<or> escapeDirection (state h) = - 1"
  shows "escapeDirection (state (hookStep h e)) = 1 \<or> escapeDirection (state (hookStep h e)) = - 1"
proof (cases e)
  case Click
  then show ?thesis using assms by (simp add: handleClick_def Let_def)
next
  case (Hover r)
  then show ?thesis using assms
    by (auto simp add: handleHover_def generateEscapeOffset_def Let_def)
next
  case Confirm
  then show ?thesis using assms by (simp add: confirmDialog_def Let_def)
next
  case Cancel
  then show ?thesis using assms by (simp add: cancelDialog_def)
next
  case ResetTroll
  then show ?thesis by (simp add: resetTroll_def initialState_def)
next
  case ResetHoverOffset
  then show ?thesis by (simp add: resetHoverOffset_def)
qed

lemma direction_run:
  "escapeDirection (state h) = 1 \<or> escapeDirection (state h) = - 1 \<Longrightarrow>
   escapeDirection (state (hookRun h evs)) = 1 \<or> escapeDirection (state (hookRun h evs)) = - 1"
  by (induction evs arbitrary: h) (simp_all add: hookRun_Nil hookRun_Cons direction_step)

lemma direction_reachable:
  "escapeDirection (state (hookRun initialHook evs)) = 1
   \<or> escapeDirection (state (hookRun initialHook evs)) = - 1"
  by (rule direction_run) (simp add: initialHook_def initialState_def)

lemma distance_range:
  fixes r lo hi :: real
  assumes "0 \<le> r" "r < 1" "lo \<le> hi"
  shows "lo \<le> lo + r * (hi - lo)" and "lo + r * (hi - lo) \<le> hi"
proof -
  have "0 \<le> r * (hi - lo)" using assms by simp
  then show "lo \<le> lo + r * (hi - lo)" by simp
  have "r * (hi - lo) \<le> 1 * (hi - lo)"
    using assms by (intro mult_right_mono) simp_all
  then show "lo + r * (hi - lo) \<le> hi" by simp
qed

lemma hover_x:
  "\<not> isComplete h \<Longrightarrow>
   offset_x (hoverEscapeOffset (state (handleHover r h))) =
     - escapeDirection (state h) *
       (if MAX_ESCAPES \<le> escapeCount (state h)
        then TIRED_ESCAPE_MIN + r * (TIRED_ESCAPE_MAX - TIRED_ESCAPE_MIN)
        else HOVER_ESCAPE_MIN + r * (HOVER_ESCAPE_MAX - HOVER_ESCAPE_MIN))"
  by (simp add: handleHover_def generateEscapeOffset_def Let_def)

text \<open>
  C7. \<open>handleHover\<close> does nothing when \<open>isComplete\<close>. Otherwise, in a state reached from
  the initial one and for a random number \<open>r\<close> with \<open>0 \<le> r < 1\<close>, the new offset has
  \<open>y = 0\<close>; \<open>|x|\<close> lies in \<open>[HOVER_ESCAPE_MIN, HOVER_ESCAPE_MAX] = [80, 120]\<close> while
  \<open>escapeCount < MAX_ESCAPES = 4\<close> and in \<open>[TIRED_ESCAPE_MIN, TIRED_ESCAPE_MAX] = [15, 25]\<close>
  once \<open>escapeCount \<ge> 4\<close>; the sign of \<open>x\<close> is the negation of the previous
  \<open>escapeDirection\<close>, which is negated in turn; \<open>escapeCount\<close> grows by 1.
\<close>

theorem handleHover_escape:
  "(isComplete h \<longrightarrow> handleHover r h = h)
   \<and> (\<not> isComplete h \<and> h = hookRun initialHook evs \<and> 0 \<le> r \<and> r < 1 \<longrightarrow>
        offset_y (hoverEscapeOffset (state (handleHover r h))) = 0
        \<and> (escapeCount (state h) < MAX_ESCAPES \<longrightarrow>
             HOVER_ESCAPE_MIN \<le> \<bar>offset_x (hoverEscapeOffset (state (handleHover r h)))\<bar>
             \<and> \<bar>offset_x (hoverEscapeOffset (state (handleHover r h)))\<bar> \<le> HOVER_ESCAPE_MAX)
        \<and> (MAX_ESCAPES \<le> escapeCount (state h) \<longrightarrow>
             TIRED_ESCAPE_MIN \<le> \<bar>offset_x (hoverEscapeOffset (state (handleHover r h)))\<bar>
             \<and> \<bar>offset_x (hoverEscapeOffset (state (handleHover r h)))\<bar> \<le> TIRED_ESCAPE_MAX)
        \<and> sgn (offset_x (hoverEscapeOffset (state (handleHover r h)))) = - escapeDirection (state h)
        \<and> escapeDirection (state (handleHover r h)) = - escapeDirection (state h)
        \<and> escapeCount (state (handleHover r h)) = escapeCount (state h) + 1)
   \<and> HOVER_ESCAPE_MIN = 80 \<and> HOVER_ESCAPE_MAX = 120 \<and> MAX_ESCAPES = 4
   \<and> TIRED_ESCAPE_MIN = 15 \<and> TIRED_ESCAPE_MAX = 25"
proof -
  have noop: "isComplete h \<longrightarrow> handleHover r h = h"
    by (simp add: handleHover_def)
  have active: "offset_y (hoverEscapeOffset (state (handleHover r h))) = 0
        \<and> (escapeCount (state h) < MAX_ESCAPES \<longrightarrow>
             HOVER_ESCAPE_MIN \<le> \<bar>offset_x (hoverEscapeOffset (state (handleHover r h)))\<bar>
             \<and> \<bar>offset_x (hoverEscapeOffset (state (handleHover r h)))\<bar> \<le> HOVER_ESCAPE_MAX)
        \<and> (MAX_ESCAPES \<le> escapeCount (state h) \<longrightarrow>
             TIRED_ESCAPE_MIN \<le> \<bar>offset_x (hoverEscapeOffset (state (handleHover r h)))\<bar>
             \<and> \<bar>offset_x (hoverEscapeOffset (state (handleHover r h)))\<bar> \<le> TIRED_ESCAPE_MAX)
        \<and> sgn (offset_x (hoverEscapeOffset (state (handleHover r h)))) = - escapeDirection (state h)
        \<and> escapeDirection (state (handleHover r h)) = - escapeDirection (state h)
        \<and> escapeCount (state (handleHover r h)) = escapeCount (state h) + 1"
    if nc: "\<not> isComplete h" and reach: "h = hookRun initialHook evs" and r0: "0 \<le> r" and r1: "r < 1"
  proof -
    let ?x = "offset_x (hoverEscapeOffset (state (handleHover r h)))"
    let ?d = "escapeDirection (state h)"
    have dir: "?d = 1 \<or> ?d = - 1"
      unfolding reach by (rule direction_reachable)
    have y0: "offset_y (hoverEscapeOffset (state (handleHover r h))) = 0"
      using nc by (simp add: handleHover_def generateEscapeOffset_def Let_def)
    have d': "escapeDirection (state (handleHover r h)) = - ?d"
      using nc by (simp add: handleHover_def generateEscapeOffset_def Let_def)
    have c': "escapeCount (state (handleHover r h)) = escapeCount (state h) + 1"
      using nc by (simp add: handleHover_def Let_def)
    have fresh_lo: "HOVER_ESCAPE_MIN \<le> HOVER_ESCAPE_MIN + r * (HOVER_ESCAPE_MAX - HOVER_ESCAPE_MIN)"
      and fresh_hi: "HOVER_ESCAPE_MIN + r * (HOVER_ESCAPE_MAX - HOVER_ESCAPE_MIN) \<le> HOVER_ESCAPE_MAX"
      using distance_range [OF r0 r1, of HOVER_ESCAPE_MIN HOVER_ESCAPE_MAX]
      by (simp_all add: HOVER_ESCAPE_MIN_def HOVER_ESCAPE_MAX_def)
    have tired_lo: "TIRED_ESCAPE_MIN \<le> TIRED_ESCAPE_MIN + r * (TIRED_ESCAPE_MAX - TIRED_ESCAPE_MIN)"
      and tired_hi: "TIRED_ESCAPE_MIN + r * (TIRED_ESCAPE_MAX - TIRED_ESCAPE_MIN) \<le> TIRED_ESCAPE_MAX"
      using distance_range [OF r0 r1, of TIRED_ESCAPE_MIN TIRED_ESCAPE_MAX]
      by (simp_all add: TIRED_ESCAPE_MIN_def TIRED_ESCAPE_MAX_def)
    have fresh_pos: "0 < HOVER_ESCAPE_MIN + r * (HOVER_ESCAPE_MAX - HOVER_ESCAPE_MIN)"
      using fresh_lo by (simp add: HOVER_ESCAPE_MIN_def)
    have tired_pos: "0 < TIRED_ESCAPE_MIN + r * (TIRED_ESCAPE_MAX - TIRED_ESCAPE_MIN)"
      using tired_lo by (simp add: TIRED_ESCAPE_MIN_def)
    have fresh: "HOVER_ESCAPE_MIN \<le> \<bar>?x\<bar> \<and> \<bar>?x\<bar> \<le> HOVER_ESCAPE_MAX"
      if "escapeCount (state h) < MAX_ESCAPES"
      using that dir fresh_lo fresh_hi fresh_pos
      by (auto simp add: hover_x [OF nc] abs_mult)
    have tired: "TIRED_ESCAPE_MIN \<le> \<bar>?x\<bar> \<and> \<bar>?x\<bar> \<le> TIRED_ESCAPE_MAX"
      if "MAX_ESCAPES \<le> escapeCount (state h)"
      using that dir tired_lo tired_hi tired_pos
      by (auto simp add: hover_x [OF nc] abs_mult)
    have sign: "sgn ?x = - ?d"
      using dir fresh_pos tired_pos
      by (auto simp add: hover_x [OF nc] sgn_mult)
    show ?thesis using y0 d' c' fresh tired sign by blast
  qed
  have act: "\<not> isComplete h \<and> h = hookRun initialHook evs \<and> 0 \<le> r \<and> r < 1 \<longrightarrow>
        offset_y (hoverEscapeOffset (state (handleHover r h))) = 0
        \<and> (escapeCount (state h) < MAX_ESCAPES \<longrightarrow>
             HOVER_ESCAPE_MIN \<le> \<bar>offset_x (hoverEscapeOffset (state (handleHover r h)))\<bar>
             \<and> \<bar>offset_x (hoverEscapeOffset (state (handleHover r h)))\<bar> \<le> HOVER_ESCAPE_MAX)
        \<and> (MAX_ESCAPES \<le> escapeCount (state h) \<longrightarrow>
             TIRED_ESCAPE_MIN \<le> \<bar>offset_x (hoverEscapeOffset (state (handleHover r h)))\<bar>
             \<and> \<bar>offset_x (hoverEscapeOffset (state (handleHover r h)))\<bar> \<le> TIRED_ESCAPE_MAX)
        \<and> sgn (offset_x (hoverEscapeOffset (state (handleHover r h)))) = - escapeDirection (state h)
        \<and> escapeDirection (state (handleHover r h)) = - escapeDirection (state h)
        \<and> escapeCount (state (handleHover r h)) = escapeCount (state h) + 1"
    by (intro impI, elim conjE, rule active)
  have vals: "HOVER_ESCAPE_MIN = 80 \<and> HOVER_ESCAPE_MAX = 120 \<and> MAX_ESCAPES = 4
   \<and> TIRED_ESCAPE_MIN = 15 \<and> TIRED_ESCAPE_MAX = 25"
    by (simp add: troll_constants)
  show ?thesis by (rule conjI [OF noop conjI [OF act vals]])
qed

theorem handleHover_escape_witness:
  "(\<not> isComplete initialHook \<and> initialHook = hookRun initialHook [] \<and> (0::real) \<le> 1 / 2
    \<and> (1 / 2 :: real) < 1 \<and> escapeCount (state initialHook) < MAX_ESCAPES
    \<and> HOVER_ESCAPE_MIN \<le> \<bar>offset_x (hoverEscapeOffset (state (handleHover (1 / 2) initialHook)))\<bar>
    \<and> \<bar>offset_x (hoverEscapeOffset (state (handleHover (1 / 2) initialHook)))\<bar> \<le> HOVER_ESCAPE_MAX
    \<and> sgn (offset_x (hoverEscapeOffset (state (handleHover (1 / 2) initialHook)))) = - 1)
   \<and> (\<not> isComplete (hookRun initialHook [Hover 0, Hover 0, Hover 0, Hover 0])
    \<and> MAX_ESCAPES \<le> escapeCount (state (hookRun initialHook [Hover 0, Hover 0, Hover 0, Hover 0]))
    \<and> TIRED_ESCAPE_MIN \<le> \<bar>offset_x (hoverEscapeOffset (state (handleHover (1 / 2)
          (hookRun initialHook [Hover 0, Hover 0, Hover 0, Hover 0]))))\<bar>
    \<and> \<bar>offset_x (hoverEscapeOffset (state (handleHover (1 / 2)
          (hookRun initialHook [Hover 0, Hover 0, Hover 0, Hover 0]))))\<bar> \<le> TIRED_ESCAPE_MAX)
   \<and> (isComplete (hookRun initialHook [Click, Confirm, Confirm, Confirm])
    \<and> handleHover (1 / 2) (hookRun initialHook [Click, Confirm, Confirm, Confirm])
        = hookRun initialHook [Click, Confirm, Confirm, Confirm])"
proof -
  let ?tired = "hookRun initialHook [Hover 0, Hover 0, Hover 0, Hover 0]"
  let ?done = "hookRun initialHook [Click, Confirm, Confirm, Confirm]"
  have r: "(0::real) \<le> 1 / 2 \<and> (1 / 2 :: real) < 1" by simp
  have f0: "initialHook = hookRun initialHook []" by (simp add: hookRun_Nil)
  have f1: "escapeDirection (state initialHook) = 1"
    by (simp add: initialHook_def initialState_def)
  have t1: "\<not> isComplete ?tired \<and> MAX_ESCAPES \<le> escapeCount (state ?tired)"
    by (simp add: tired_hook MAX_ESCAPES_def)
  have d1: "isComplete ?done" by (simp add: complete_hook)
  have fresh: "HOVER_ESCAPE_MIN \<le> \<bar>offset_x (hoverEscapeOffset (state (handleHover (1 / 2) initialHook)))\<bar>
    \<and> \<bar>offset_x (hoverEscapeOffset (state (handleHover (1 / 2) initialHook)))\<bar> \<le> HOVER_ESCAPE_MAX
    \<and> sgn (offset_x (hoverEscapeOffset (state (handleHover (1 / 2) initialHook)))) = - 1"
    using handleHover_escape [of initialHook "1 / 2" "[]"] fresh_hook f0 r f1 by metis
  have tired: "TIRED_ESCAPE_MIN \<le> \<bar>offset_x (hoverEscapeOffset (state (handleHover (1 / 2) ?tired)))\<bar>
    \<and> \<bar>offset_x (hoverEscapeOffset (state (handleHover (1 / 2) ?tired)))\<bar> \<le> TIRED_ESCAPE_MAX"
    using handleHover_escape [of ?tired "1 / 2" "[Hover 0, Hover 0, Hover 0, Hover 0]"] t1 r
    by blast
  have fin: "handleHover (1 / 2) ?done = ?done"
    using handleHover_escape [of ?done "1 / 2"] d1 by blast
  show ?thesis using fresh_hook f0 r fresh t1 tired d1 fin by blast
qed

section \<open>The fixed button\<close>

text \<open>
  C8. \<open>DoneButton\<close> renders nothing when \<open>isCompleted\<close> is true. When it is false, one
  activation of the rendered button (a click, or Enter or Space while focused) has exactly
  the effect of one call of the completion callback, shown also with a callback that
  counts its calls; the element has no hover handler and no inline style, so a pointer
  entering it changes nothing.
\<close>

theorem DoneButton_fixed:
  "DoneButton onComplete True = None
   \<and> (\<exists>el. DoneButton onComplete False = Some el
        \<and> dispatch el MouseClick w = onComplete w
        \<and> dispatch el KeyEnter w = onComplete w
        \<and> dispatch el KeySpace w = onComplete w
        \<and> dispatch el MouseEnter w = w
        \<and> onMouseEnter el = None \<and> style el = None)
   \<and> (\<exists>el. DoneButton (\<lambda>calls :: nat. calls + 1) False = Some el
        \<and> dispatch el MouseClick 0 = 1 \<and> dispatch el KeyEnter 0 = 1
        \<and> dispatch el KeySpace 0 = 1 \<and> dispatch el MouseEnter 0 = 0)"
  by (simp add: DoneButton_def)

section \<open>Using the registry outside a provider\<close>

text \<open>
  C9. Without an enclosing \<open>TrollButtonProvider\<close>, \<open>useTrollButtonContext\<close> throws the
  error \<open>useTrollButtonContext must be used within a TrollButtonProvider\<close>; inside a
  provider it returns that provider's context value and does not throw.
\<close>

theorem useTrollButtonContext_throws:
  "useTrollButtonContext [] =
     Inl (Error ''useTrollButtonContext must be used within a TrollButtonProvider'')
   \<and> useTrollButtonContext (reg # outer) = Inr reg"
  by (simp add: useTrollButtonContext_def useContext_TrollButtonContext_def)

section \<open>Clicks while a dialog is open\<close>

text \<open>
  C10. While a dialog is open (\<open>isComplete\<close> false and \<open>dialogStage > 0\<close>), \<open>handleClick\<close>
  still counts the click: \<open>clickCount\<close> grows by 1, \<open>rotation\<close> by
  \<open>ROTATION_INCREMENT = 15\<close>, \<open>scale\<close> drops by \<open>SCALE_DECREMENT\<close> clamped at \<open>MIN_SCALE\<close>,
  and \<open>dialogStage\<close>, \<open>hoverEscapeOffset\<close>, \<open>escapeDirection\<close>, \<open>escapeCount\<close> and
  \<open>isComplete\<close> stay as they were.
\<close>

theorem click_while_dialog_open:
  "\<not> isComplete h \<Longrightarrow> 0 < dialogStage (state h) \<Longrightarrow>
     clickCount (state (handleClick h)) = clickCount (state h) + 1
     \<and> rotation (state (handleClick h)) = rotation (state h) + ROTATION_INCREMENT
     \<and> ROTATION_INCREMENT = 15
     \<and> scale (state (handleClick h)) = max MIN_SCALE (scale (state h) - SCALE_DECREMENT)
     \<and> dialogStage (state (handleClick h)) = dialogStage (state h)
     \<and> hoverEscapeOffset (state (handleClick h)) = hoverEscapeOffset (state h)
     \<and> escapeDirection (state (handleClick h)) = escapeDirection (state h)
     \<and> escapeCount (state (handleClick h)) = escapeCount (state h)
     \<and> isComplete (handleClick h) = isComplete h"
  by (simp add: handleClick_def Let_def ROTATION_INCREMENT_def)

theorem click_while_dialog_open_witness:
  "\<not> isComplete (hookRun initialHook [Click])
   \<and> 0 < dialogStage (state (hookRun initialHook [Click]))
   \<and> clickCount (state (handleClick (hookRun initialHook [Click]))) = 2
   \<and> rotation (state (handleClick (hookRun initialHook [Click]))) = 30
   \<and> scale (state (handleClick (hookRun initialHook [Click]))) = 4 / 5
   \<and> dialogStage (state (handleClick (hookRun initialHook [Click]))) = 1"
proof -
  let ?h = "hookRun initialHook [Click]"
  have nc: "\<not> isComplete ?h" and op: "0 < dialogStage (state ?h)"
    by (simp_all add: open_hook)
  show ?thesis using click_while_dialog_open [OF nc op] nc op
    by (simp add: open_hook troll_constants)
qed

end
